theory Spec2Isabelle
  imports Main "HOL-Library.Sublist"
begin

section \<open>Strings and numbers as the program has them\<close>

text \<open>
  A JavaScript string is modelled as a \<open>string\<close>: a list of characters, each standing
  for one code unit below 256. A JavaScript number that the program only ever uses as
  an integer (an HTTP status, a list length, the risk score) is an \<open>int\<close> or a \<open>nat\<close>.
\<close>

definition digitChar :: "nat \<Rightarrow> char" where
  "digitChar n = char_of (48 + n)"

fun natToString :: "nat \<Rightarrow> string" where
  "natToString n =
     (if n < 10 then [digitChar n] else natToString (n div 10) @ [digitChar (n mod 10)])"

declare natToString.simps [simp del]

text \<open>The text a template literal \<open>${n}\<close> puts in for an integer number.\<close>

definition numToString :: "int \<Rightarrow> string" where
  "numToString i = (if i < 0 then CHR ''-'' # natToString (nat (- i)) else natToString (nat i))"

text \<open>\<open>String.prototype.toLowerCase\<close> on code units below 256.\<close>

definition lowerChar :: "char \<Rightarrow> char" where
  "lowerChar c =
     (let n = (of_char c :: nat)
      in if (65 \<le> n \<and> n \<le> 90) \<or> (192 \<le> n \<and> n \<le> 222 \<and> n \<noteq> 215)
         then char_of (n + 32) else c)"

definition toLowerCase :: "string \<Rightarrow> string" where
  "toLowerCase s = map lowerChar s"

definition startsWith :: "string \<Rightarrow> string \<Rightarrow> bool" where
  "startsWith s p = prefix p s"

text \<open>
  \<open>String.prototype.trim\<close>: white space and line terminators below 256 are
  TAB, LF, VT, FF, CR, SP and NBSP.
\<close>

definition isWhiteSpace :: "char \<Rightarrow> bool" where
  "isWhiteSpace c = (of_char c \<in> {9, 10, 11, 12, 13, 32, 160 :: nat})"

definition trim :: "string \<Rightarrow> string" where
  "trim s = rev (dropWhile isWhiteSpace (rev (dropWhile isWhiteSpace s)))"

section \<open>Types\<close>

record Geo =
  city :: "string option"
  region :: "string option"
  country :: "string option"
  isp :: "string option"
  source :: "string option"

record HttpInfo =
  status :: int
  timeMs :: int
  finalUrl :: string
  headers :: "(string \<times> string) list"

text \<open>
  \<open>timeSec\<close> is \<open>(end - start) / 1000\<close>; the model keeps the integer difference
  \<open>end - start\<close> of the two clock readings in \<open>timeMs\<close>. Certificate fields of type
  \<open>any\<close> are kept as their text, and a WHOIS record as its list of entries.
\<close>

record TlsInfo =
  subject :: "string option"
  issuer :: "string option"
  valid_from :: "string option"
  valid_to :: "string option"
  fingerprint256 :: "string option"

record RawData =
  targetUrl :: string
  host :: string
  whoisDomain :: string
  ips :: "string list"
  geo :: "Geo option"
  http :: "HttpInfo option"
  tls :: "TlsInfo option"
  whois :: "(string \<times> string) list option"
  errors :: "string list"
  savedFilePath :: string

datatype Label = SAFE | CAUTION | RISKY

record Verdict =
  stars :: nat
  label :: Label
  reasons :: "string list"

section \<open>Helpers\<close>

text \<open>
  The test \<open>/^https?:\/\//i\<close>: the letters \<open>http\<close> in either case, an optional
  \<open>s\<close> in either case, then \<open>://\<close>.
\<close>

definition hasHttpPrefix :: "string \<Rightarrow> bool" where
  "hasHttpPrefix s =
     (toLowerCase (take 7 s) = ''http://'' \<or> toLowerCase (take 8 s) = ''https://'')"

definition normalizeUrl :: "string \<Rightarrow> string" where
  "normalizeUrl raw = (let s = trim raw in if \<not> hasHttpPrefix s then ''https://'' @ s else s)"

text \<open>
  \<open>getHost\<close> is \<open>new URL(url).hostname\<close>. The URL parser belongs to the platform, so
  every function below that parses a URL takes it as the parameter \<open>getHost\<close>, with
  \<open>None\<close> where the constructor throws.
\<close>

type_synonym urlParser = "string \<Rightarrow> string option"

definition stripWww :: "string \<Rightarrow> string" where
  "stripWww h = (if startsWith h ''www.'' then drop 4 h else h)"

section \<open>F_VF (interpret/grade)\<close>

text \<open>
  The two locals of \<open>F_VF\<close>, \<open>score\<close> and \<open>reasons\<close>, are passed from block to block
  as a pair. \<open>penalty n r\<close> is \<open>score += n; reasons.push(r)\<close> and \<open>push r\<close> is
  \<open>reasons.push(r)\<close> alone.
\<close>

type_synonym locals = "int \<times> string list"

definition penalty :: "int \<Rightarrow> string \<Rightarrow> locals \<Rightarrow> locals" where
  "penalty n r a = (fst a + n, snd a @ [r])"

definition push :: "string \<Rightarrow> locals \<Rightarrow> locals" where
  "push r a = (fst a, snd a @ [r])"

definition isHttps :: "RawData \<Rightarrow> bool" where
  "isHttps d = startsWith (toLowerCase (targetUrl d)) ''https://''"

definition checkHttps :: "RawData \<Rightarrow> locals \<Rightarrow> locals" where
  "checkHttps d a =
     (if \<not> isHttps d then penalty 3 ''Not using HTTPS'' a else push ''Uses HTTPS'' a)"

definition checkStatus :: "RawData \<Rightarrow> locals \<Rightarrow> locals" where
  "checkStatus d a =
     (case http d of
        Some h \<Rightarrow>
          if status h \<ge> 400 then penalty 2 (''HTTP error status: '' @ numToString (status h)) a
          else push (''HTTP status OK: '' @ numToString (status h)) a
      | None \<Rightarrow> penalty 2 ''HTTP request failed'' a)"

definition checkRedirect :: "urlParser \<Rightarrow> RawData \<Rightarrow> locals \<Rightarrow> locals" where
  "checkRedirect getHost d a =
     (case http d of
        None \<Rightarrow> a
      | Some h \<Rightarrow>
          if finalUrl h = [] then a
          else (case getHost (finalUrl h) of
                  Some finalHost \<Rightarrow>
                    if stripWww finalHost \<noteq> stripWww (host d)
                    then penalty 2 (''Redirected to different host: '' @ finalHost) a
                    else a
                | None \<Rightarrow> penalty 1 ''Could not parse final redirect URL'' a))"

definition checkTls :: "RawData \<Rightarrow> locals \<Rightarrow> locals" where
  "checkTls d a =
     (if tls d = None then penalty 3 ''No TLS certificate info'' a
      else push ''TLS certificate present'' a)"

definition checkWhois :: "RawData \<Rightarrow> locals \<Rightarrow> locals" where
  "checkWhois d a =
     (if whois d = None then penalty 1 ''WHOIS lookup missing or failed'' a
      else push ''WHOIS data found'' a)"

definition checkErrors :: "RawData \<Rightarrow> locals \<Rightarrow> locals" where
  "checkErrors d a =
     (if length (errors d) \<noteq> 0
      then penalty 1 (''Errors encountered: '' @ natToString (length (errors d))) a
      else a)"

text \<open>The locals when control reaches the comment \<open>Score \<rightarrow> Stars/Label\<close>.\<close>

definition F_VF_locals :: "urlParser \<Rightarrow> RawData \<Rightarrow> locals" where
  "F_VF_locals getHost d =
     checkErrors d (checkWhois d (checkTls d (checkRedirect getHost d
       (checkStatus d (checkHttps d (0, []))))))"

definition F_VF_score :: "urlParser \<Rightarrow> RawData \<Rightarrow> int" where
  "F_VF_score getHost d = fst (F_VF_locals getHost d)"

definition grade :: "int \<Rightarrow> nat \<times> Label" where
  "grade score =
     (if score \<le> 1 then (5, SAFE)
      else if score \<le> 3 then (4, SAFE)
      else if score \<le> 5 then (3, CAUTION)
      else if score \<le> 7 then (2, RISKY)
      else (1, RISKY))"

definition F_VF :: "urlParser \<Rightarrow> RawData \<Rightarrow> Verdict" where
  "F_VF getHost d =
     (let a = F_VF_locals getHost d; g = grade (fst a)
      in \<lparr>stars = fst g, label = snd g, reasons = take 8 (snd a)\<rparr>)"

section \<open>F_DATA(URL_CLICK)\<close>

text \<open>
  \<open>safeFilename\<close> is \<open>s.replace(/[^a-zA-Z0-9._-]+/g, "_")\<close>: every maximal run of
  characters outside the class becomes one underscore. The flag of \<open>replaceRuns\<close> says
  that the run in progress has already been replaced.
\<close>

definition safeChar :: "char \<Rightarrow> bool" where
  "safeChar c =
     (let n = (of_char c :: nat)
      in (97 \<le> n \<and> n \<le> 122) \<or> (65 \<le> n \<and> n \<le> 90) \<or> (48 \<le> n \<and> n \<le> 57)
         \<or> c = CHR ''.'' \<or> c = CHR ''_'' \<or> c = CHR ''-'')"

fun replaceRuns :: "bool \<Rightarrow> string \<Rightarrow> string" where
  "replaceRuns inRun [] = []"
| "replaceRuns inRun (c # cs) =
     (if safeChar c then c # replaceRuns False cs
      else if inRun then replaceRuns True cs
      else CHR ''_'' # replaceRuns True cs)"

definition safeFilename :: "string \<Rightarrow> string" where
  "safeFilename s = replaceRuns False s"

text \<open>
  Everything \<open>F_Data\<close> reads from outside the program is a field of \<open>World\<close>: the
  environment variable, the answer of each network service (\<open>Inl\<close> carries the message
  of the exception thrown, \<open>Inr\<close> the value returned), the answer of \<open>process.cwd()\<close>
  (which throws when the working directory is gone), the time stamp, and the outcome
  of the two file-system calls (\<open>Some\<close> carries the message of the rejection). The
  answer of a geolocation provider is the four values the program copies out of it:
  city, region, country, and \<open>org\<close> for ipinfo or \<open>connection.isp\<close> for ipwho.is.
\<close>

type_synonym providerData = "string option \<times> string option \<times> string option \<times> string option"

record World =
  IPINFO_TOKEN :: string
  dnsLookup :: "string \<Rightarrow> string + string list"
  ipinfoFetch :: "string \<Rightarrow> string + providerData"
  ipwhoFetch :: "string \<Rightarrow> string + providerData"
  httpRequest :: "string \<Rightarrow> string + HttpInfo"
  getTlsCert :: "string \<Rightarrow> string + TlsInfo"
  whoisLookup :: "string \<Rightarrow> string + (string \<times> string) list"
  cwd :: "string + string"
  nowStamp :: string
  mkdir :: "string \<Rightarrow> string option"
  writeFile :: "string \<Rightarrow> string option"

text \<open>The calls that leave the program, in the order they are made.\<close>

datatype Call =
    DnsLookup string
  | IpinfoFetch string
  | IpwhoFetch string
  | HttpRequest string
  | TlsConnect string
  | WhoisQuery string
  | Mkdir string
  | WriteFile string

text \<open>
  The ways the promise returned by \<open>F_Data\<close> is rejected: \<open>new URL\<close> throws in
  \<open>getHost\<close>, \<open>process.cwd()\<close> throws, \<open>fs.mkdir\<close> rejects, \<open>fs.writeFile\<close> rejects.
\<close>

datatype Failure =
    InvalidTarget
  | CwdFailed string
  | MkdirFailed string
  | WriteFileFailed string

text \<open>
  The state threaded through \<open>F_Data\<close>: the \<open>errors\<close> array and the calls made so far.
\<close>

type_synonym run = "string list \<times> Call list"

definition pushError :: "string \<Rightarrow> run \<Rightarrow> run" where
  "pushError e r = (fst r @ [e], snd r)"

definition logCall :: "Call \<Rightarrow> run \<Rightarrow> run" where
  "logCall c r = (fst r, snd r @ [c])"

definition mkGeo :: "providerData \<Rightarrow> string \<Rightarrow> Geo" where
  "mkGeo p src =
     (case p of (c, r, k, i) \<Rightarrow>
        \<lparr>city = c, region = r, country = k, isp = i, source = Some src\<rparr>)"

definition ipInfoLookup :: "World \<Rightarrow> string \<Rightarrow> run \<Rightarrow> (string + providerData) \<times> run" where
  "ipInfoLookup w ip r =
     (if IPINFO_TOKEN w = [] then (Inl ''Missing IPINFO_TOKEN'', r)
      else (ipinfoFetch w ip, logCall (IpinfoFetch ip) r))"

definition ipGeoFallback :: "World \<Rightarrow> string \<Rightarrow> run \<Rightarrow> (string + providerData) \<times> run" where
  "ipGeoFallback w ip r = (ipwhoFetch w ip, logCall (IpwhoFetch ip) r)"

text \<open>The blocks of \<open>F_Data\<close>, named by their comments in the source.\<close>

definition dnsBlock :: "World \<Rightarrow> string \<Rightarrow> run \<Rightarrow> string list \<times> run" where
  "dnsBlock w h r =
     (case dnsLookup w h of
        Inr addresses \<Rightarrow> (addresses, logCall (DnsLookup h) r)
      | Inl msg \<Rightarrow> ([], pushError (''IP ERROR: '' @ msg) (logCall (DnsLookup h) r)))"

definition geoPrimary :: "World \<Rightarrow> string \<Rightarrow> run \<Rightarrow> Geo option \<times> run" where
  "geoPrimary w ip r =
     (if IPINFO_TOKEN w \<noteq> [] then
        (case ipInfoLookup w ip r of
           (Inr d, r') \<Rightarrow> (Some (mkGeo d ''ipinfo''), r')
         | (Inl msg, r') \<Rightarrow> (None, pushError (''GEO ERROR (ipinfo): '' @ msg) r'))
      else (None, r))"

definition geoFallback :: "World \<Rightarrow> string \<Rightarrow> Geo option \<times> run \<Rightarrow> Geo option \<times> run" where
  "geoFallback w ip gr =
     (if fst gr = None then
        (case ipGeoFallback w ip (snd gr) of
           (Inr g, r') \<Rightarrow> (Some (mkGeo g ''ipwho.is''), r')
         | (Inl msg, r') \<Rightarrow> (None, pushError (''GEO ERROR (fallback): '' @ msg) r'))
      else gr)"

definition geoBlock :: "World \<Rightarrow> string list \<Rightarrow> run \<Rightarrow> Geo option \<times> run" where
  "geoBlock w addrs r =
     (case addrs of
        ip # _ \<Rightarrow> geoFallback w ip (geoPrimary w ip r)
      | [] \<Rightarrow> (None, pushError ''No IP addresses resolved from DNS'' r))"

definition httpBlock :: "World \<Rightarrow> string \<Rightarrow> run \<Rightarrow> HttpInfo option \<times> run" where
  "httpBlock w url r =
     (case httpRequest w url of
        Inr info \<Rightarrow> (Some info, logCall (HttpRequest url) r)
      | Inl msg \<Rightarrow> (None, pushError (''HTTP ERROR: '' @ msg) (logCall (HttpRequest url) r)))"

definition tlsBlock :: "World \<Rightarrow> string \<Rightarrow> run \<Rightarrow> TlsInfo option \<times> run" where
  "tlsBlock w h r =
     (case getTlsCert w h of
        Inr cert \<Rightarrow> (Some cert, logCall (TlsConnect h) r)
      | Inl msg \<Rightarrow> (None, pushError (''SSL ERROR: '' @ msg) (logCall (TlsConnect h) r)))"

definition whoisBlock :: "World \<Rightarrow> string \<Rightarrow> run \<Rightarrow> (string \<times> string) list option \<times> run" where
  "whoisBlock w wd r =
     (case whoisLookup w wd of
        Inr data \<Rightarrow> (Some data, logCall (WhoisQuery wd) r)
      | Inl msg \<Rightarrow> (None, pushError (''WHOIS ERROR: '' @ msg) (logCall (WhoisQuery wd) r)))"

text \<open>
  \<open>outDir\<close> is \<open>path.resolve(process.cwd(), "output")\<close>: the working directory is
  absolute and ends in no separator unless it is the root. \<open>savedFilePath\<close> is
  \<open>path.join\<close> of that directory and a file name that holds no separator: the two
  joined by one \<open>/\<close>.
\<close>

definition resolveOutput :: "string \<Rightarrow> string" where
  "resolveOutput dir = (if dir = ''/'' then ''/output'' else dir @ ''/output'')"

definition reportPath :: "World \<Rightarrow> string \<Rightarrow> string \<Rightarrow> string" where
  "reportPath w outDir wd =
     outDir @ ''/'' @ ''rawdata-'' @ safeFilename wd @ ''-'' @ nowStamp w @ ''.txt''"

text \<open>
  \<open>F_Data\<close> returns the rejection or the evidence, together with the calls it made.
  Every awaited call is taken to settle, with a value or with an \<open>Error\<close> that has a
  message. The text that \<open>formatRawTxt\<close> builds for the file is not part of the
  returned value and is left out; on the strings, numbers and plain objects that the
  services return, \<open>formatRawTxt\<close> returns normally.
\<close>

definition F_Data :: "urlParser \<Rightarrow> World \<Rightarrow> string \<Rightarrow> (Failure + RawData) \<times> Call list" where
  "F_Data getHost w urlClick =
     (let url = normalizeUrl urlClick in
      case getHost url of
        None \<Rightarrow> (Inl InvalidTarget, [])
      | Some h \<Rightarrow>
          (let wd = stripWww h;
               (addrs, r1) = dnsBlock w h ([], []);
               (g, r2) = geoBlock w addrs r1;
               (ht, r3) = httpBlock w url r2;
               (t, r4) = tlsBlock w h r3;
               (wh, r5) = whoisBlock w wd r4
           in case cwd w of
                Inl msg \<Rightarrow> (Inl (CwdFailed msg), snd r5)
              | Inr dir \<Rightarrow>
                  (let outDir = resolveOutput dir; r6 = logCall (Mkdir outDir) r5
                   in case mkdir w outDir of
                        Some msg \<Rightarrow> (Inl (MkdirFailed msg), snd r6)
                      | None \<Rightarrow>
                          (let file = reportPath w outDir wd; r7 = logCall (WriteFile file) r6
                           in case writeFile w file of
                                Some msg \<Rightarrow> (Inl (WriteFileFailed msg), snd r7)
                              | None \<Rightarrow>
                                  (Inr \<lparr>targetUrl = url, host = h, whoisDomain = wd,
                                        ips = addrs, geo = g, http = ht, tls = t, whois = wh,
                                        errors = fst r7, savedFilePath = file\<rparr>,
                                   snd r7)))))"

section \<open>What each block of the scorer contributes\<close>

text \<open>
  The amount each block of \<open>F_VF\<close> adds to \<open>score\<close> and the strings it pushes onto
  \<open>reasons\<close>, read off the branches of the block.
\<close>

definition schemePenalty :: "RawData \<Rightarrow> int" where
  "schemePenalty d = (if isHttps d then 0 else 3)"

definition schemeReason :: "RawData \<Rightarrow> string" where
  "schemeReason d = (if isHttps d then ''Uses HTTPS'' else ''Not using HTTPS'')"

definition statusPenalty :: "RawData \<Rightarrow> int" where
  "statusPenalty d = (case http d of None \<Rightarrow> 2 | Some h \<Rightarrow> if 400 \<le> status h then 2 else 0)"

definition statusReason :: "RawData \<Rightarrow> string" where
  "statusReason d =
     (case http d of
        None \<Rightarrow> ''HTTP request failed''
      | Some h \<Rightarrow> (if 400 \<le> status h then ''HTTP error status: '' else ''HTTP status OK: '')
                   @ numToString (status h))"

text \<open>
  The outcome of the redirect block: skipped (no \<open>http\<close> or an empty \<open>finalUrl\<close>), final
  host equal to the target host after \<open>stripWww\<close>, a different final host, or a final URL
  on which \<open>getHost\<close> throws.
\<close>

datatype Redirect = NotChecked | SameHost | OtherHost string | Unparseable

definition redirect :: "urlParser \<Rightarrow> RawData \<Rightarrow> Redirect" where
  "redirect getHost d =
     (case http d of
        None \<Rightarrow> NotChecked
      | Some h \<Rightarrow>
          if finalUrl h = [] then NotChecked
          else (case getHost (finalUrl h) of
                  None \<Rightarrow> Unparseable
                | Some finalHost \<Rightarrow>
                    if stripWww finalHost \<noteq> stripWww (host d) then OtherHost finalHost
                    else SameHost))"

fun redirectPenalty :: "Redirect \<Rightarrow> int" where
  "redirectPenalty (OtherHost h) = 2"
| "redirectPenalty Unparseable = 1"
| "redirectPenalty _ = 0"

fun redirectReasons :: "Redirect \<Rightarrow> string list" where
  "redirectReasons (OtherHost h) = [''Redirected to different host: '' @ h]"
| "redirectReasons Unparseable = [''Could not parse final redirect URL'']"
| "redirectReasons _ = []"

definition tlsPenalty :: "RawData \<Rightarrow> int" where
  "tlsPenalty d = (if tls d = None then 3 else 0)"

definition tlsReason :: "RawData \<Rightarrow> string" where
  "tlsReason d = (if tls d = None then ''No TLS certificate info'' else ''TLS certificate present'')"

definition whoisPenalty :: "RawData \<Rightarrow> int" where
  "whoisPenalty d = (if whois d = None then 1 else 0)"

definition whoisReason :: "RawData \<Rightarrow> string" where
  "whoisReason d = (if whois d = None then ''WHOIS lookup missing or failed'' else ''WHOIS data found'')"

definition errorsPenalty :: "RawData \<Rightarrow> int" where
  "errorsPenalty d = (if errors d = [] then 0 else 1)"

definition errorsReasons :: "RawData \<Rightarrow> string list" where
  "errorsReasons d =
     (if errors d = [] then [] else [''Errors encountered: '' @ natToString (length (errors d))])"

subsection \<open>Introducing one negative condition\<close>

text \<open>
  \<open>addsNegative getHost d d'\<close>: the evidence \<open>d'\<close> is \<open>d\<close> with one scoring condition
  turned from not penalised to penalised, and no field changed but the ones that
  condition reads. The seven cases are: the scheme stops being https; \<open>http\<close> present
  with a status below 400 becomes absent; the status goes from below 400 to 400 or
  more; the redirect block goes from no penalty to a penalty by a change of \<open>finalUrl\<close>
  or \<open>host\<close>; \<open>tls\<close> becomes absent; \<open>whois\<close> becomes absent; \<open>errors\<close> becomes
  non-empty.
\<close>

definition addsNonHttps :: "RawData \<Rightarrow> RawData \<Rightarrow> bool" where
  "addsNonHttps d d' = (isHttps d \<and> \<not> isHttps d' \<and> d' = d\<lparr>targetUrl := targetUrl d'\<rparr>)"

definition addsHttpAbsent :: "RawData \<Rightarrow> RawData \<Rightarrow> bool" where
  "addsHttpAbsent d d' = (statusPenalty d = 0 \<and> d' = d\<lparr>http := None\<rparr>)"

definition addsHttpError :: "RawData \<Rightarrow> RawData \<Rightarrow> bool" where
  "addsHttpError d d' =
     (case (http d, http d') of
        (Some h, Some h') \<Rightarrow>
          status h < 400 \<and> 400 \<le> status h' \<and> d' = d\<lparr>http := Some (h\<lparr>status := status h'\<rparr>)\<rparr>
      | _ \<Rightarrow> False)"

definition addsRedirect :: "urlParser \<Rightarrow> RawData \<Rightarrow> RawData \<Rightarrow> bool" where
  "addsRedirect getHost d d' =
     (case (http d, http d') of
        (Some h, Some h') \<Rightarrow>
          redirectPenalty (redirect getHost d) = 0 \<and> 0 < redirectPenalty (redirect getHost d')
          \<and> d' = d\<lparr>host := host d', http := Some (h\<lparr>finalUrl := finalUrl h'\<rparr>)\<rparr>
      | _ \<Rightarrow> False)"

definition addsTlsAbsent :: "RawData \<Rightarrow> RawData \<Rightarrow> bool" where
  "addsTlsAbsent d d' = (tls d \<noteq> None \<and> d' = d\<lparr>tls := None\<rparr>)"

definition addsWhoisAbsent :: "RawData \<Rightarrow> RawData \<Rightarrow> bool" where
  "addsWhoisAbsent d d' = (whois d \<noteq> None \<and> d' = d\<lparr>whois := None\<rparr>)"

definition addsErrors :: "RawData \<Rightarrow> RawData \<Rightarrow> bool" where
  "addsErrors d d' = (errors d = [] \<and> errors d' \<noteq> [] \<and> d' = d\<lparr>errors := errors d'\<rparr>)"

definition addsNegative :: "urlParser \<Rightarrow> RawData \<Rightarrow> RawData \<Rightarrow> bool" where
  "addsNegative getHost d d' =
     (addsNonHttps d d' \<or> addsHttpAbsent d d' \<or> addsHttpError d d' \<or> addsRedirect getHost d d'
      \<or> addsTlsAbsent d d' \<or> addsWhoisAbsent d d' \<or> addsErrors d d')"

subsection \<open>A call of the scorer\<close>


definition sameReads :: "RawData \<Rightarrow> RawData \<Rightarrow> bool" where
  "sameReads d d' =
     (targetUrl d' = targetUrl d \<and> host d' = host d
      \<and> map_option (\<lambda>h. (status h, finalUrl h)) (http d')
          = map_option (\<lambda>h. (status h, finalUrl h)) (http d)
      \<and> (tls d' = None) = (tls d = None) \<and> (whois d' = None) = (whois d = None)
      \<and> length (errors d') = length (errors d))"

section \<open>What each block of the aggregator contributes\<close>

text \<open>The entries each block of \<open>F_Data\<close> appends to \<open>errors\<close>, read off its branches.\<close>

definition dnsErrors :: "World \<Rightarrow> string \<Rightarrow> string list" where
  "dnsErrors w h = (case dnsLookup w h of Inl msg \<Rightarrow> [''IP ERROR: '' @ msg] | Inr _ \<Rightarrow> [])"

definition fallbackErrors :: "World \<Rightarrow> string \<Rightarrow> string list" where
  "fallbackErrors w ip =
     (case ipwhoFetch w ip of Inl msg \<Rightarrow> [''GEO ERROR (fallback): '' @ msg] | Inr _ \<Rightarrow> [])"

definition geoErrors :: "World \<Rightarrow> string list \<Rightarrow> string list" where
  "geoErrors w addrs =
     (case addrs of
        [] \<Rightarrow> [''No IP addresses resolved from DNS'']
      | ip # _ \<Rightarrow>
          if IPINFO_TOKEN w \<noteq> [] then
            (case ipinfoFetch w ip of
               Inl msg \<Rightarrow> (''GEO ERROR (ipinfo): '' @ msg) # fallbackErrors w ip
             | Inr _ \<Rightarrow> [])
          else fallbackErrors w ip)"

definition httpErrors :: "World \<Rightarrow> string \<Rightarrow> string list" where
  "httpErrors w url =
     (case httpRequest w url of Inl msg \<Rightarrow> [''HTTP ERROR: '' @ msg] | Inr _ \<Rightarrow> [])"

definition tlsErrors :: "World \<Rightarrow> string \<Rightarrow> string list" where
  "tlsErrors w h =
     (case getTlsCert w h of Inl msg \<Rightarrow> [''SSL ERROR: '' @ msg] | Inr _ \<Rightarrow> [])"

definition whoisErrors :: "World \<Rightarrow> string \<Rightarrow> string list" where
  "whoisErrors w wd =
     (case whoisLookup w wd of Inl msg \<Rightarrow> [''WHOIS ERROR: '' @ msg] | Inr _ \<Rightarrow> [])"

text \<open>The provider calls of the GEO block, and when it leaves \<open>geo\<close> undefined.\<close>

definition geoCalls :: "World \<Rightarrow> string list \<Rightarrow> Call list" where
  "geoCalls w addrs =
     (case addrs of
        [] \<Rightarrow> []
      | ip # _ \<Rightarrow>
          if IPINFO_TOKEN w \<noteq> []
          then IpinfoFetch ip # (if isl (ipinfoFetch w ip) then [IpwhoFetch ip] else [])
          else [IpwhoFetch ip])"

definition geoAbsent :: "World \<Rightarrow> string list \<Rightarrow> bool" where
  "geoAbsent w addrs =
     (case addrs of
        [] \<Rightarrow> True
      | ip # _ \<Rightarrow> isl (ipwhoFetch w ip) \<and> (IPINFO_TOKEN w = [] \<or> isl (ipinfoFetch w ip)))"

definition isGeoCall :: "Call \<Rightarrow> bool" where
  "isGeoCall c = (case c of IpinfoFetch _ \<Rightarrow> True | IpwhoFetch _ \<Rightarrow> True | _ \<Rightarrow> False)"

text \<open>The state of \<open>F_Data\<close> after each of its blocks, and the record it builds.\<close>

definition afterDns :: "World \<Rightarrow> string \<Rightarrow> string list \<times> run" where
  "afterDns w h = dnsBlock w h ([], [])"

definition afterGeo :: "World \<Rightarrow> string \<Rightarrow> Geo option \<times> run" where
  "afterGeo w h = geoBlock w (fst (afterDns w h)) (snd (afterDns w h))"

definition afterHttp :: "World \<Rightarrow> string \<Rightarrow> string \<Rightarrow> HttpInfo option \<times> run" where
  "afterHttp w url h = httpBlock w url (snd (afterGeo w h))"

definition afterTls :: "World \<Rightarrow> string \<Rightarrow> string \<Rightarrow> TlsInfo option \<times> run" where
  "afterTls w url h = tlsBlock w h (snd (afterHttp w url h))"

definition afterWhois :: "World \<Rightarrow> string \<Rightarrow> string \<Rightarrow> (string \<times> string) list option \<times> run" where
  "afterWhois w url h = whoisBlock w (stripWww h) (snd (afterTls w url h))"

definition gathered :: "World \<Rightarrow> string \<Rightarrow> string \<Rightarrow> string \<Rightarrow> RawData" where
  "gathered w url h file =
     \<lparr>targetUrl = url, host = h, whoisDomain = stripWww h, ips = fst (afterDns w h),
      geo = fst (afterGeo w h), http = fst (afterHttp w url h), tls = fst (afterTls w url h),
      whois = fst (afterWhois w url h), errors = fst (snd (afterWhois w url h)),
      savedFilePath = file\<rparr>"

subsection \<open>Counting failures\<close>

text \<open>
  \<open>absentFields\<close> counts the optional fields among geo, http, tls and whois that are
  absent. \<open>lookupFailures\<close> counts the sub-lookups that ended in failure, one for each
  of DNS (no address), geolocation (run, and no provider answered), HTTP, TLS and
  WHOIS; a geolocation skipped for want of an address is not counted.
  \<open>dnsThrew\<close> says that \<open>dns.lookup\<close> threw, and \<open>primaryFailed\<close> that ipinfo was called
  and failed.
\<close>

definition absentFields :: "RawData \<Rightarrow> nat" where
  "absentFields d =
     (if geo d = None then 1 else 0) + (if http d = None then 1 else 0)
     + (if tls d = None then 1 else 0) + (if whois d = None then 1 else 0)"

definition lookupFailures :: "RawData \<Rightarrow> nat" where
  "lookupFailures d =
     (if ips d = [] then 1 else 0) + (if ips d \<noteq> [] \<and> geo d = None then 1 else 0)
     + (if http d = None then 1 else 0) + (if tls d = None then 1 else 0)
     + (if whois d = None then 1 else 0)"

definition dnsThrew :: "World \<Rightarrow> string \<Rightarrow> bool" where
  "dnsThrew w h = isl (dnsLookup w h)"

definition primaryFailed :: "World \<Rightarrow> string \<Rightarrow> bool" where
  "primaryFailed w h =
     (case dnsLookup w h of
        Inr (ip # _) \<Rightarrow> IPINFO_TOKEN w \<noteq> [] \<and> isl (ipinfoFetch w ip)
      | _ \<Rightarrow> False)"

text \<open>
  \<open>lookupsIsolated w d\<close>: in the evidence \<open>d\<close> every failed attempt has left its entry in
  \<open>errors\<close>, in the order of the attempts, and nothing else has; \<open>http\<close>, \<open>tls\<close> and
  \<open>whois\<close> are absent exactly when their lookup failed, \<open>geo\<close> exactly when no address
  was resolved or no provider answered.
\<close>

definition lookupsIsolated :: "World \<Rightarrow> RawData \<Rightarrow> bool" where
  "lookupsIsolated w d =
     (errors d = dnsErrors w (host d) @ geoErrors w (ips d) @ httpErrors w (targetUrl d)
                   @ tlsErrors w (host d) @ whoisErrors w (whoisDomain d)
      \<and> ips d = (case dnsLookup w (host d) of Inl _ \<Rightarrow> [] | Inr a \<Rightarrow> a)
      \<and> (geo d = None) = geoAbsent w (ips d)
      \<and> (http d = None) = isl (httpRequest w (targetUrl d))
      \<and> (tls d = None) = isl (getTlsCert w (host d))
      \<and> (whois d = None) = isl (whoisLookup w (whoisDomain d)))"

text \<open>A string that \<open>trim\<close> leaves as it is.\<close>

definition isTrimmed :: "string \<Rightarrow> bool" where
  "isTrimmed s = (s = [] \<or> (\<not> isWhiteSpace (hd s) \<and> \<not> isWhiteSpace (last s)))"

section \<open>Sample runs\<close>

text \<open>
  The inputs of the closed instances below. \<open>sampleParser\<close> is the URL parser on the
  URLs these instances use, each with the host name the platform parser gives it.
  \<open>sampleWorld\<close> is a world without a token in which every service answers; the other
  worlds change it in the fields named. The \<open>ev...\<close> records are the evidence \<open>F_Data\<close>
  returns in these worlds (lemma \<open>sample_runs\<close>).
\<close>

definition sampleParser :: urlParser where
  "sampleParser =
     map_of [(''https://example.com'', ''example.com''),
             (''http://example.com'', ''example.com''),
             (''https://example.com/'', ''example.com''),
             (''https://www.example.com/'', ''www.example.com''),
             (''https://login.example.net/'', ''login.example.net'')]"

definition sampleTls :: TlsInfo where
  "sampleTls = \<lparr>subject = Some ''{CN: example.com}'', issuer = Some ''{O: Example CA}'',
     valid_from = Some ''Jan  1 00:00:00 2026 GMT'', valid_to = Some ''Jan  1 00:00:00 2027 GMT'',
     fingerprint256 = Some ''AB:CD''\<rparr>"

definition sampleWorld :: World where
  "sampleWorld =
     \<lparr>IPINFO_TOKEN = [],
      dnsLookup = (\<lambda>h. Inr [''93.184.216.34'', ''2606:2800:220:1::1'']),
      ipinfoFetch = (\<lambda>ip. Inl ''IPinfo HTTP 403: forbidden''),
      ipwhoFetch = (\<lambda>ip. Inr (Some ''Norwell'', Some ''Massachusetts'', Some ''US'', Some ''Edgecast'')),
      httpRequest = (\<lambda>u. Inr \<lparr>status = 200, timeMs = 120, finalUrl = ''https://example.com/'',
                              headers = []\<rparr>),
      getTlsCert = (\<lambda>h. Inr sampleTls),
      whoisLookup = (\<lambda>wd. Inr [(''domainName'', ''EXAMPLE.COM'')]),
      cwd = Inr ''/home/u'',
      nowStamp = ''20260101-120000'',
      mkdir = (\<lambda>p. None),
      writeFile = (\<lambda>p. None)\<rparr>"

definition worldWhoisDown :: World where
  "worldWhoisDown = sampleWorld\<lparr>whoisLookup := (\<lambda>wd. Inl ''timeout'')\<rparr>"

definition worldWhoisDownLater :: World where
  "worldWhoisDownLater =
     sampleWorld\<lparr>dnsLookup := (\<lambda>h. Inr [''93.184.215.14'']),
       httpRequest := (\<lambda>u. Inr \<lparr>status = 200, timeMs = 431, finalUrl = ''https://example.com/'',
                                headers = [(''server'', ''ECAcc'')]\<rparr>),
       whoisLookup := (\<lambda>wd. Inl ''connect ECONNREFUSED''),
       nowStamp := ''20260102-093000''\<rparr>"

definition worldTlsDown :: World where
  "worldTlsDown = sampleWorld\<lparr>getTlsCert := (\<lambda>h. Inl ''TLS timeout'')\<rparr>"

definition worldHttpTlsDown :: World where
  "worldHttpTlsDown = worldTlsDown\<lparr>httpRequest := (\<lambda>u. Inl ''fetch failed'')\<rparr>"

definition worldDnsDown :: World where
  "worldDnsDown = sampleWorld\<lparr>dnsLookup := (\<lambda>h. Inl ''getaddrinfo ENOTFOUND example.com'')\<rparr>"

definition worldAllDown :: World where
  "worldAllDown =
     worldDnsDown\<lparr>httpRequest := (\<lambda>u. Inl ''fetch failed''),
       getTlsCert := (\<lambda>h. Inl ''TLS timeout''), whoisLookup := (\<lambda>wd. Inl ''timeout'')\<rparr>"

definition worldRedirect :: World where
  "worldRedirect =
     sampleWorld\<lparr>httpRequest := (\<lambda>u. Inr \<lparr>status = 200, timeMs = 120,
       finalUrl = ''https://login.example.net/'', headers = []\<rparr>)\<rparr>"

definition worldPrimaryFails :: World where
  "worldPrimaryFails = sampleWorld\<lparr>IPINFO_TOKEN := ''tok123''\<rparr>"

definition worldPrimaryOk :: World where
  "worldPrimaryOk =
     sampleWorld\<lparr>IPINFO_TOKEN := ''tok123'',
       ipinfoFetch := (\<lambda>ip. Inr (Some ''Norwell'', Some ''Massachusetts'', Some ''US'',
                                   Some ''AS15133 Edgecast Inc.''))\<rparr>"

definition worldNoCwd :: World where
  "worldNoCwd = sampleWorld\<lparr>cwd := Inl ''ENOENT: no such file or directory, uv_cwd''\<rparr>"

definition worldReadOnly :: World where
  "worldReadOnly = sampleWorld\<lparr>writeFile := (\<lambda>p. Some ''EACCES: permission denied'')\<rparr>"

definition evAllGood :: RawData where
  "evAllGood =
     \<lparr>targetUrl = ''https://example.com'', host = ''example.com'', whoisDomain = ''example.com'',
      ips = [''93.184.216.34'', ''2606:2800:220:1::1''],
      geo = Some \<lparr>city = Some ''Norwell'', region = Some ''Massachusetts'', country = Some ''US'',
                  isp = Some ''Edgecast'', source = Some ''ipwho.is''\<rparr>,
      http = Some \<lparr>status = 200, timeMs = 120, finalUrl = ''https://example.com/'', headers = []\<rparr>,
      tls = Some sampleTls,
      whois = Some [(''domainName'', ''EXAMPLE.COM'')],
      errors = [],
      savedFilePath = ''/home/u/output/rawdata-example.com-20260101-120000.txt''\<rparr>"

definition evWhoisFailed :: RawData where
  "evWhoisFailed = evAllGood\<lparr>whois := None, errors := [''WHOIS ERROR: timeout'']\<rparr>"

definition evWhoisFailedLater :: RawData where
  "evWhoisFailedLater =
     evAllGood\<lparr>ips := [''93.184.215.14''],
       http := Some \<lparr>status = 200, timeMs = 431, finalUrl = ''https://example.com/'',
                     headers = [(''server'', ''ECAcc'')]\<rparr>,
       whois := None, errors := [''WHOIS ERROR: connect ECONNREFUSED''],
       savedFilePath := ''/home/u/output/rawdata-example.com-20260102-093000.txt''\<rparr>"

definition evTlsFailed :: RawData where
  "evTlsFailed = evAllGood\<lparr>tls := None, errors := [''SSL ERROR: TLS timeout'']\<rparr>"

definition evHttpTlsFailed :: RawData where
  "evHttpTlsFailed =
     evAllGood\<lparr>http := None, tls := None,
       errors := [''HTTP ERROR: fetch failed'', ''SSL ERROR: TLS timeout'']\<rparr>"

definition evAllFailed :: RawData where
  "evAllFailed =
     \<lparr>targetUrl = ''http://example.com'', host = ''example.com'', whoisDomain = ''example.com'',
      ips = [], geo = None, http = None, tls = None, whois = None,
      errors = [''IP ERROR: getaddrinfo ENOTFOUND example.com'',
                ''No IP addresses resolved from DNS'', ''HTTP ERROR: fetch failed'',
                ''SSL ERROR: TLS timeout'', ''WHOIS ERROR: timeout''],
      savedFilePath = ''/home/u/output/rawdata-example.com-20260101-120000.txt''\<rparr>"

definition evRedirected :: RawData where
  "evRedirected =
     evAllGood\<lparr>http := Some \<lparr>status = 200, timeMs = 120,
       finalUrl = ''https://login.example.net/'', headers = []\<rparr>\<rparr>"

definition evDnsDown :: RawData where
  "evDnsDown =
     evAllGood\<lparr>ips := [], geo := None,
       errors := [''IP ERROR: getaddrinfo ENOTFOUND example.com'',
                  ''No IP addresses resolved from DNS'']\<rparr>"

definition evPrimaryFailed :: RawData where
  "evPrimaryFailed = evAllGood\<lparr>errors := [''GEO ERROR (ipinfo): IPinfo HTTP 403: forbidden'']\<rparr>"

section \<open>The sample evidence comes from the aggregator\<close>

lemma sample_runs:
  "fst (F_Data sampleParser sampleWorld ''example.com'') = Inr evAllGood"
  "fst (F_Data sampleParser worldWhoisDown ''example.com'') = Inr evWhoisFailed"
  "fst (F_Data sampleParser worldTlsDown ''example.com'') = Inr evTlsFailed"
  "fst (F_Data sampleParser worldHttpTlsDown ''example.com'') = Inr evHttpTlsFailed"
  "fst (F_Data sampleParser worldAllDown ''http://example.com'') = Inr evAllFailed"
  "fst (F_Data sampleParser worldRedirect ''example.com'') = Inr evRedirected"
  "fst (F_Data sampleParser worldDnsDown ''example.com'') = Inr evDnsDown"
  "fst (F_Data sampleParser worldPrimaryFails ''example.com'') = Inr evPrimaryFailed"
  "fst (F_Data sampleParser worldWhoisDownLater ''example.com'') = Inr evWhoisFailedLater"
  by code_simp+

text \<open>
  When \<open>process.cwd()\<close> throws, \<open>F_Data\<close> fails after the five lookups and before any
  call to \<open>fs.mkdir\<close>.
\<close>

lemma cwd_failure_run:
  "F_Data sampleParser worldNoCwd ''example.com'' =
     (Inl (CwdFailed ''ENOENT: no such file or directory, uv_cwd''),
      [DnsLookup ''example.com'', IpwhoFetch ''93.184.216.34'',
       HttpRequest ''https://example.com'', TlsConnect ''example.com'',
       WhoisQuery ''example.com''])"
  by code_simp

section \<open>Properties of the scorer\<close>

subsection \<open>The blocks, one by one\<close>

lemma checkHttps_eq: "checkHttps d a = (fst a + schemePenalty d, snd a @ [schemeReason d])"
  by (simp add: checkHttps_def schemePenalty_def schemeReason_def penalty_def push_def)

lemma checkStatus_eq: "checkStatus d a = (fst a + statusPenalty d, snd a @ [statusReason d])"
  by (simp add: checkStatus_def statusPenalty_def statusReason_def penalty_def push_def
           split: option.splits)

lemma checkRedirect_eq:
  "checkRedirect gh d a =
     (fst a + redirectPenalty (redirect gh d), snd a @ redirectReasons (redirect gh d))"
  by (simp add: checkRedirect_def redirect_def penalty_def split: option.splits)

lemma checkTls_eq: "checkTls d a = (fst a + tlsPenalty d, snd a @ [tlsReason d])"
  by (simp add: checkTls_def tlsPenalty_def tlsReason_def penalty_def push_def)

lemma checkWhois_eq: "checkWhois d a = (fst a + whoisPenalty d, snd a @ [whoisReason d])"
  by (simp add: checkWhois_def whoisPenalty_def whoisReason_def penalty_def push_def)

lemma checkErrors_eq: "checkErrors d a = (fst a + errorsPenalty d, snd a @ errorsReasons d)"
  by (simp add: checkErrors_def errorsPenalty_def errorsReasons_def penalty_def)

lemma F_VF_locals_eq:
  "F_VF_locals gh d =
     (schemePenalty d + statusPenalty d + redirectPenalty (redirect gh d) + tlsPenalty d
        + whoisPenalty d + errorsPenalty d,
      [schemeReason d, statusReason d] @ redirectReasons (redirect gh d)
        @ [tlsReason d, whoisReason d] @ errorsReasons d)"
  by (simp add: F_VF_locals_def checkHttps_eq checkStatus_eq checkRedirect_eq checkTls_eq
        checkWhois_eq checkErrors_eq)

lemma F_VF_score_eq:
  "F_VF_score gh d =
     schemePenalty d + statusPenalty d + redirectPenalty (redirect gh d) + tlsPenalty d
       + whoisPenalty d + errorsPenalty d"
  by (simp add: F_VF_score_def F_VF_locals_eq)

lemma redirectPenalty_range: "0 \<le> redirectPenalty r \<and> redirectPenalty r \<le> 2"
  by (cases r) simp_all

lemma redirectReasons_length: "length (redirectReasons r) \<le> 1"
  by (cases r) simp_all

lemma F_VF_score_range: "0 \<le> F_VF_score gh d \<and> F_VF_score gh d \<le> 12"
  using redirectPenalty_range [of "redirect gh d"]
  by (simp add: F_VF_score_eq schemePenalty_def statusPenalty_def tlsPenalty_def
        whoisPenalty_def errorsPenalty_def split: option.splits)

lemma F_VF_locals_length:
  "4 \<le> length (snd (F_VF_locals gh d)) \<and> length (snd (F_VF_locals gh d)) \<le> 6"
  using redirectReasons_length [of "redirect gh d"]
  by (simp add: F_VF_locals_eq errorsReasons_def)

lemma stars_F_VF: "stars (F_VF gh d) = fst (grade (F_VF_score gh d))"
  by (simp add: F_VF_def F_VF_score_def Let_def)

lemma label_F_VF: "label (F_VF gh d) = snd (grade (F_VF_score gh d))"
  by (simp add: F_VF_def F_VF_score_def Let_def)

lemma reasons_F_VF: "reasons (F_VF gh d) = take 8 (snd (F_VF_locals gh d))"
  by (simp add: F_VF_def Let_def)

subsection \<open>The fields each block reads\<close>

lemma schemePenalty_reads: "targetUrl d' = targetUrl d \<Longrightarrow> schemePenalty d' = schemePenalty d"
  by (simp add: schemePenalty_def isHttps_def)

lemma statusPenalty_reads:
  "map_option status (http d') = map_option status (http d) \<Longrightarrow> statusPenalty d' = statusPenalty d"
  by (cases "http d"; cases "http d'") (simp_all add: statusPenalty_def)

lemma redirect_reads:
  "map_option finalUrl (http d') = map_option finalUrl (http d) \<Longrightarrow> host d' = host d
   \<Longrightarrow> redirect gh d' = redirect gh d"
  by (cases "http d"; cases "http d'") (auto simp add: redirect_def split: option.splits)

lemma tlsPenalty_reads: "(tls d' = None) = (tls d = None) \<Longrightarrow> tlsPenalty d' = tlsPenalty d"
  by (simp add: tlsPenalty_def)

lemma whoisPenalty_reads:
  "(whois d' = None) = (whois d = None) \<Longrightarrow> whoisPenalty d' = whoisPenalty d"
  by (simp add: whoisPenalty_def)

lemma errorsPenalty_reads:
  "length (errors d') = length (errors d) \<Longrightarrow> errorsPenalty d' = errorsPenalty d"
  by (simp add: errorsPenalty_def) (metis length_0_conv)

text \<open>
  The verdict depends on the evidence only through the fields \<open>sameReads\<close> compares.
\<close>

lemma sameReads_refl: "sameReads d d"
  by (simp add: sameReads_def)


subsection \<open>One more negative condition\<close>

lemma score_addsNonHttps: "addsNonHttps d d' \<Longrightarrow> F_VF_score gh d' = F_VF_score gh d + 3"
proof -
  assume a: "addsNonHttps d d'"
  then have e: "d' = d\<lparr>targetUrl := targetUrl d'\<rparr>" and h: "isHttps d" and n: "\<not> isHttps d'"
    by (simp_all add: addsNonHttps_def)
  have f: "http d' = http d" "host d' = host d" "tls d' = tls d" "whois d' = whois d"
    "errors d' = errors d"
    by (subst e, simp)+
  have "statusPenalty d' = statusPenalty d" "redirect gh d' = redirect gh d"
    "tlsPenalty d' = tlsPenalty d" "whoisPenalty d' = whoisPenalty d"
    "errorsPenalty d' = errorsPenalty d"
    by (simp_all add: f cong: statusPenalty_reads redirect_reads tlsPenalty_reads
          whoisPenalty_reads errorsPenalty_reads)
  then show ?thesis
    using h n by (simp add: F_VF_score_eq schemePenalty_def)
qed

lemma score_addsHttpAbsent: "addsHttpAbsent d d' \<Longrightarrow> F_VF_score gh d \<le> F_VF_score gh d'"
proof -
  assume a: "addsHttpAbsent d d'"
  then have e: "d' = d\<lparr>http := None\<rparr>" and z: "statusPenalty d = 0"
    by (simp_all add: addsHttpAbsent_def)
  have f: "targetUrl d' = targetUrl d" "http d' = None" "tls d' = tls d" "whois d' = whois d"
    "errors d' = errors d"
    by (subst e, simp)+
  have "statusPenalty d' = 2" "redirect gh d' = NotChecked"
    by (simp_all add: statusPenalty_def redirect_def f)
  moreover have "schemePenalty d' = schemePenalty d"
    "tlsPenalty d' = tlsPenalty d" "whoisPenalty d' = whoisPenalty d"
    "errorsPenalty d' = errorsPenalty d"
    by (simp_all add: f cong: schemePenalty_reads tlsPenalty_reads
          whoisPenalty_reads errorsPenalty_reads)
  ultimately show ?thesis
    using z redirectPenalty_range [of "redirect gh d"] by (simp add: F_VF_score_eq)
qed

lemma score_addsHttpError: "addsHttpError d d' \<Longrightarrow> F_VF_score gh d' = F_VF_score gh d + 2"
proof -
  assume a: "addsHttpError d d'"
  then obtain h h' where hd: "http d = Some h" and hd': "http d' = Some h'"
    and lt: "status h < 400" and ge: "400 \<le> status h'"
    and e: "d' = d\<lparr>http := Some (h\<lparr>status := status h'\<rparr>)\<rparr>"
    by (auto simp add: addsHttpError_def split: option.splits)
  have f: "targetUrl d' = targetUrl d" "host d' = host d" "tls d' = tls d" "whois d' = whois d"
    "errors d' = errors d" "http d' = Some (h\<lparr>status := status h'\<rparr>)"
    by (subst e, simp)+
  have "statusPenalty d = 0" "statusPenalty d' = 2"
    using lt ge by (simp_all add: statusPenalty_def hd hd')
  moreover have "redirect gh d' = redirect gh d"
    by (rule redirect_reads) (simp_all add: f hd)
  moreover have "schemePenalty d' = schemePenalty d"
    "tlsPenalty d' = tlsPenalty d" "whoisPenalty d' = whoisPenalty d"
    "errorsPenalty d' = errorsPenalty d"
    by (simp_all add: f cong: schemePenalty_reads tlsPenalty_reads
          whoisPenalty_reads errorsPenalty_reads)
  ultimately show ?thesis by (simp add: F_VF_score_eq)
qed

lemma score_addsRedirect: "addsRedirect gh d d' \<Longrightarrow> F_VF_score gh d < F_VF_score gh d'"
proof -
  assume a: "addsRedirect gh d d'"
  then obtain h h' where hd: "http d = Some h" and hd': "http d' = Some h'"
    and z: "redirectPenalty (redirect gh d) = 0" and p: "0 < redirectPenalty (redirect gh d')"
    and e: "d' = d\<lparr>host := host d', http := Some (h\<lparr>finalUrl := finalUrl h'\<rparr>)\<rparr>"
    by (auto simp add: addsRedirect_def split: option.splits)
  have f: "targetUrl d' = targetUrl d" "tls d' = tls d" "whois d' = whois d"
    "errors d' = errors d" "http d' = Some (h\<lparr>finalUrl := finalUrl h'\<rparr>)"
    by (subst e, simp)+
  have "statusPenalty d' = statusPenalty d"
    by (rule statusPenalty_reads) (simp add: f hd)
  moreover have "schemePenalty d' = schemePenalty d"
    "tlsPenalty d' = tlsPenalty d" "whoisPenalty d' = whoisPenalty d"
    "errorsPenalty d' = errorsPenalty d"
    by (simp_all add: f cong: schemePenalty_reads tlsPenalty_reads
          whoisPenalty_reads errorsPenalty_reads)
  ultimately show ?thesis
    using z p by (simp add: F_VF_score_eq)
qed

lemma score_addsTlsAbsent: "addsTlsAbsent d d' \<Longrightarrow> F_VF_score gh d' = F_VF_score gh d + 3"
proof -
  assume a: "addsTlsAbsent d d'"
  then have e: "d' = d\<lparr>tls := None\<rparr>" and t: "tls d \<noteq> None"
    by (simp_all add: addsTlsAbsent_def)
  have f: "targetUrl d' = targetUrl d" "http d' = http d" "host d' = host d" "tls d' = None"
    "whois d' = whois d" "errors d' = errors d"
    by (subst e, simp)+
  have "schemePenalty d' = schemePenalty d" "statusPenalty d' = statusPenalty d"
    "redirect gh d' = redirect gh d" "whoisPenalty d' = whoisPenalty d"
    "errorsPenalty d' = errorsPenalty d"
    by (simp_all add: f cong: schemePenalty_reads statusPenalty_reads redirect_reads
          whoisPenalty_reads errorsPenalty_reads)
  then show ?thesis
    using t by (simp add: F_VF_score_eq tlsPenalty_def f)
qed

lemma score_addsWhoisAbsent: "addsWhoisAbsent d d' \<Longrightarrow> F_VF_score gh d' = F_VF_score gh d + 1"
proof -
  assume a: "addsWhoisAbsent d d'"
  then have e: "d' = d\<lparr>whois := None\<rparr>" and t: "whois d \<noteq> None"
    by (simp_all add: addsWhoisAbsent_def)
  have f: "targetUrl d' = targetUrl d" "http d' = http d" "host d' = host d" "tls d' = tls d"
    "whois d' = None" "errors d' = errors d"
    by (subst e, simp)+
  have "schemePenalty d' = schemePenalty d" "statusPenalty d' = statusPenalty d"
    "redirect gh d' = redirect gh d" "tlsPenalty d' = tlsPenalty d"
    "errorsPenalty d' = errorsPenalty d"
    by (simp_all add: f cong: schemePenalty_reads statusPenalty_reads redirect_reads
          tlsPenalty_reads errorsPenalty_reads)
  then show ?thesis
    using t by (simp add: F_VF_score_eq whoisPenalty_def f)
qed

lemma score_addsErrors: "addsErrors d d' \<Longrightarrow> F_VF_score gh d' = F_VF_score gh d + 1"
proof -
  assume a: "addsErrors d d'"
  then have e: "d' = d\<lparr>errors := errors d'\<rparr>" and z: "errors d = []" and n: "errors d' \<noteq> []"
    by (simp_all add: addsErrors_def)
  have f: "targetUrl d' = targetUrl d" "http d' = http d" "host d' = host d" "tls d' = tls d"
    "whois d' = whois d"
    by (subst e, simp)+
  have "schemePenalty d' = schemePenalty d" "statusPenalty d' = statusPenalty d"
    "redirect gh d' = redirect gh d" "tlsPenalty d' = tlsPenalty d"
    "whoisPenalty d' = whoisPenalty d"
    by (simp_all add: f cong: schemePenalty_reads statusPenalty_reads redirect_reads
          tlsPenalty_reads whoisPenalty_reads)
  then show ?thesis
    using z n by (simp add: F_VF_score_eq errorsPenalty_def)
qed

subsection \<open>Claims about the scorer\<close>

text \<open>
  Claim C1. For every evidence, \<open>F_VF\<close> maps the accumulated score to stars and label by
  the inclusive thresholds: 0 to 1 gives 5 stars and SAFE, 2 to 3 gives 4 stars and
  SAFE, 4 to 5 gives 3 stars and CAUTION, 6 to 7 gives 2 stars and RISKY, 8 or more
  gives 1 star and RISKY. The score is never negative, so the five rows cover every
  run.
\<close>

theorem F_VF_thresholds:
  "0 \<le> F_VF_score gh d
   \<and> (F_VF_score gh d \<in> {0, 1} \<longrightarrow> stars (F_VF gh d) = 5 \<and> label (F_VF gh d) = SAFE)
   \<and> (F_VF_score gh d \<in> {2, 3} \<longrightarrow> stars (F_VF gh d) = 4 \<and> label (F_VF gh d) = SAFE)
   \<and> (F_VF_score gh d \<in> {4, 5} \<longrightarrow> stars (F_VF gh d) = 3 \<and> label (F_VF gh d) = CAUTION)
   \<and> (F_VF_score gh d \<in> {6, 7} \<longrightarrow> stars (F_VF gh d) = 2 \<and> label (F_VF gh d) = RISKY)
   \<and> (8 \<le> F_VF_score gh d \<longrightarrow> stars (F_VF gh d) = 1 \<and> label (F_VF gh d) = RISKY)"
  using F_VF_score_range [of gh d]
  by (auto simp add: stars_F_VF label_F_VF grade_def)

text \<open>One run for each row of the table, with scores 0, 2, 4, 6 and 10.\<close>

theorem F_VF_thresholds_witness:
  "F_VF_score sampleParser evAllGood \<in> {0, 1}
     \<and> stars (F_VF sampleParser evAllGood) = 5 \<and> label (F_VF sampleParser evAllGood) = SAFE
   \<and> F_VF_score sampleParser evWhoisFailed \<in> {2, 3}
     \<and> stars (F_VF sampleParser evWhoisFailed) = 4 \<and> label (F_VF sampleParser evWhoisFailed) = SAFE
   \<and> F_VF_score sampleParser evTlsFailed \<in> {4, 5}
     \<and> stars (F_VF sampleParser evTlsFailed) = 3 \<and> label (F_VF sampleParser evTlsFailed) = CAUTION
   \<and> F_VF_score sampleParser evHttpTlsFailed \<in> {6, 7}
     \<and> stars (F_VF sampleParser evHttpTlsFailed) = 2
     \<and> label (F_VF sampleParser evHttpTlsFailed) = RISKY
   \<and> 8 \<le> F_VF_score sampleParser evAllFailed
     \<and> stars (F_VF sampleParser evAllFailed) = 1 \<and> label (F_VF sampleParser evAllFailed) = RISKY"
proof -
  have s: "F_VF_score sampleParser evAllGood = 0" "F_VF_score sampleParser evWhoisFailed = 2"
    "F_VF_score sampleParser evTlsFailed = 4" "F_VF_score sampleParser evHttpTlsFailed = 6"
    "F_VF_score sampleParser evAllFailed = 10"
    by code_simp+
  show ?thesis
    using F_VF_thresholds [of sampleParser evAllGood] F_VF_thresholds [of sampleParser evWhoisFailed]
      F_VF_thresholds [of sampleParser evTlsFailed] F_VF_thresholds [of sampleParser evHttpTlsFailed]
      F_VF_thresholds [of sampleParser evAllFailed]
    by (simp add: s)
qed

text \<open>
  Claim C4, as amended. Every verdict \<open>F_VF\<close> returns has stars between 1 and 5, a label
  among SAFE, CAUTION and RISKY, and at most 8 reasons. The accumulated score is a
  non-negative integer that fixes stars and label through the threshold table; it is
  a local of \<open>F_VF\<close> and not a field of the verdict, whose fields are stars, label and
  reasons.
\<close>

theorem Verdict_fields:
  "1 \<le> stars (F_VF gh d) \<and> stars (F_VF gh d) \<le> 5
   \<and> label (F_VF gh d) \<in> {SAFE, CAUTION, RISKY}
   \<and> length (reasons (F_VF gh d)) \<le> 8
   \<and> 0 \<le> F_VF_score gh d
   \<and> (stars (F_VF gh d), label (F_VF gh d)) = grade (F_VF_score gh d)"
  using F_VF_score_range [of gh d]
  by (auto simp add: stars_F_VF label_F_VF reasons_F_VF grade_def)

text \<open>
  Claim C4 as it was stated fails: when the WHOIS lookup alone has failed the score is
  2, and the verdict returned holds 4 stars, the label SAFE and five reasons; its one
  numeric field is not the score.
\<close>

theorem Verdict_score_counterexample:
  "F_VF_score sampleParser evWhoisFailed = 2
   \<and> F_VF sampleParser evWhoisFailed =
       \<lparr>stars = 4, label = SAFE,
        reasons = [''Uses HTTPS'', ''HTTP status OK: 200'', ''TLS certificate present'',
                   ''WHOIS lookup missing or failed'', ''Errors encountered: 1'']\<rparr>
   \<and> int (stars (F_VF sampleParser evWhoisFailed)) \<noteq> F_VF_score sampleParser evWhoisFailed"
  by code_simp

text \<open>
  Claim C5, as amended. \<open>F_VF\<close> evaluates its six conditions in the fixed order scheme,
  HTTP status, redirect, TLS, WHOIS, errors. The scheme, status, TLS and WHOIS
  conditions each append exactly one reason, whether they penalise or not. The
  redirect condition appends one reason exactly when it adds a penalty (a different
  final host, or a final URL that does not parse) and none otherwise; the errors
  condition appends one reason exactly when \<open>errors\<close> is non-empty and none otherwise.
\<close>

theorem F_VF_reasons_order:
  "reasons (F_VF gh d) =
     [schemeReason d, statusReason d] @ redirectReasons (redirect gh d)
       @ [tlsReason d, whoisReason d] @ errorsReasons d
   \<and> length (redirectReasons (redirect gh d)) = (if 0 < redirectPenalty (redirect gh d) then 1 else 0)
   \<and> length (errorsReasons d) = (if errors d = [] then 0 else 1)"
proof -
  have "length (snd (F_VF_locals gh d)) \<le> 8"
    using F_VF_locals_length [of gh d] by simp
  then have "reasons (F_VF gh d) = snd (F_VF_locals gh d)"
    by (simp add: reasons_F_VF)
  moreover have "length (redirectReasons r) = (if 0 < redirectPenalty r then 1 else 0)" for r
    by (cases r) simp_all
  ultimately show ?thesis
    by (simp add: F_VF_locals_eq errorsReasons_def)
qed

text \<open>
  Claim C5 as it was stated fails: with https, status 200, the same final host, TLS and
  WHOIS present and no errors, the redirect and errors conditions append nothing and
  the verdict has four reasons, not six.
\<close>

theorem F_VF_six_reasons_counterexample:
  "reasons (F_VF sampleParser evAllGood) =
     [''Uses HTTPS'', ''HTTP status OK: 200'', ''TLS certificate present'', ''WHOIS data found'']
   \<and> length (reasons (F_VF sampleParser evAllGood)) \<noteq> 6"
  by code_simp



text \<open>
  Claim C9. Introducing one more negative scoring condition (a scheme that is not
  https, an absent or error-status http, a redirect to another host or an unparseable
  final URL, an absent tls, an absent whois, non-empty errors) into an evidence where
  that condition was not penalised, with every other field as it was, never lowers
  the score. (Making \<open>http\<close> absent also removes its final URL, so a redirect penalty
  of the original evidence goes with it; the 2 added for the absent \<open>http\<close> covers
  it.)
\<close>

theorem F_VF_score_monotone:
  "addsNegative gh d d' \<Longrightarrow> F_VF_score gh d \<le> F_VF_score gh d'"
  unfolding addsNegative_def
  using score_addsNonHttps [of d d' gh] score_addsHttpAbsent [of d d' gh]
    score_addsHttpError [of d d' gh] score_addsRedirect [of gh d d']
    score_addsTlsAbsent [of d d' gh] score_addsWhoisAbsent [of d d' gh]
    score_addsErrors [of d d' gh]
  by auto

text \<open>
  Three instances: \<open>tls\<close> becomes absent; \<open>http\<close> becomes absent in an evidence that had
  a redirect penalty; the final URL moves to another host.
\<close>

theorem F_VF_score_monotone_witness:
  "addsNegative sampleParser evAllGood (evAllGood\<lparr>tls := None\<rparr>)
   \<and> F_VF_score sampleParser evAllGood \<le> F_VF_score sampleParser (evAllGood\<lparr>tls := None\<rparr>)
   \<and> addsNegative sampleParser evRedirected (evRedirected\<lparr>http := None\<rparr>)
   \<and> F_VF_score sampleParser evRedirected \<le> F_VF_score sampleParser (evRedirected\<lparr>http := None\<rparr>)
   \<and> addsNegative sampleParser evAllGood evRedirected
   \<and> F_VF_score sampleParser evAllGood \<le> F_VF_score sampleParser evRedirected"
proof -
  have a: "addsNegative sampleParser evAllGood (evAllGood\<lparr>tls := None\<rparr>)"
    "addsNegative sampleParser evRedirected (evRedirected\<lparr>http := None\<rparr>)"
    "addsNegative sampleParser evAllGood evRedirected"
    by code_simp+
  show ?thesis
    using a F_VF_score_monotone [OF a(1)] F_VF_score_monotone [OF a(2)]
      F_VF_score_monotone [OF a(3)]
    by simp
qed

text \<open>
  Claim C10. The reasons list \<open>F_VF\<close> returns has at least 4 and at most 6 entries, so
  the final \<open>slice(0, 8)\<close> removes nothing: the list returned is the list built.
\<close>

theorem F_VF_reasons_count:
  "4 \<le> length (reasons (F_VF gh d)) \<and> length (reasons (F_VF gh d)) \<le> 6
   \<and> reasons (F_VF gh d) = snd (F_VF_locals gh d)"
  using F_VF_locals_length [of gh d] by (simp add: reasons_F_VF)

section \<open>Properties of the target normaliser\<close>

lemma trim_id: "isTrimmed s \<Longrightarrow> trim s = s"
proof (cases "s = []")
  case True
  then show ?thesis by (simp add: trim_def)
next
  case False
  assume "isTrimmed s"
  with False have h: "\<not> isWhiteSpace (hd s)" and l: "\<not> isWhiteSpace (last s)"
    by (simp_all add: isTrimmed_def)
  from h False have "dropWhile isWhiteSpace s = s"
    by (simp add: dropWhile_eq_self_iff)
  moreover from l False have "dropWhile isWhiteSpace (rev s) = rev s"
    by (simp add: dropWhile_eq_self_iff hd_rev)
  ultimately show ?thesis by (simp add: trim_def)
qed

text \<open>
  Claim C7, as amended. \<open>normalizeUrl\<close> first removes the white space at both ends of
  its input. If what remains does not start with \<open>http://\<close> or \<open>https://\<close> in any case
  of the letters, the result is \<open>https://\<close> followed by what remains; otherwise the
  result is what remains. For an input with no white space at either end this is the
  rule of the claim: \<open>https://\<close> is prepended to the unchanged input, or the input is
  returned unchanged.
\<close>

theorem normalizeUrl_rule:
  "normalizeUrl raw = (if hasHttpPrefix (trim raw) then trim raw else ''https://'' @ trim raw)
   \<and> (isTrimmed raw \<longrightarrow>
        normalizeUrl raw = (if hasHttpPrefix raw then raw else ''https://'' @ raw))"
  by (simp add: normalizeUrl_def Let_def trim_id)

theorem normalizeUrl_rule_witness:
  "isTrimmed ''example.com/a b'' \<and> \<not> hasHttpPrefix ''example.com/a b''
   \<and> normalizeUrl ''example.com/a b'' = ''https://'' @ ''example.com/a b''
   \<and> isTrimmed ''HTTP://Example.com'' \<and> hasHttpPrefix ''HTTP://Example.com''
   \<and> normalizeUrl ''HTTP://Example.com'' = ''HTTP://Example.com''"
proof -
  have a: "isTrimmed ''example.com/a b''" "\<not> hasHttpPrefix ''example.com/a b''"
    "isTrimmed ''HTTP://Example.com''" "hasHttpPrefix ''HTTP://Example.com''"
    by code_simp+
  note r1 = normalizeUrl_rule [of "''example.com/a b''", THEN conjunct2, THEN mp, OF a(1)]
  note r2 = normalizeUrl_rule [of "''HTTP://Example.com''", THEN conjunct2, THEN mp, OF a(3)]
  show ?thesis
    using a r1 r2 by simp
qed

text \<open>
  Claim C7 as it was stated fails on white space at the ends: \<open>example.com\<close> followed by
  a space has no prefix, and the result is not \<open>https://\<close> followed by that input, for
  the space is gone; \<open>http://example.com\<close> followed by a space has the prefix and is
  not returned unchanged.
\<close>

theorem normalizeUrl_counterexample:
  "\<not> hasHttpPrefix ''example.com '' \<and> normalizeUrl ''example.com '' = ''https://example.com''
   \<and> normalizeUrl ''example.com '' \<noteq> ''https://'' @ ''example.com ''
   \<and> hasHttpPrefix ''http://example.com ''
   \<and> normalizeUrl ''http://example.com '' \<noteq> ''http://example.com ''"
  by code_simp

section \<open>Properties of the aggregator\<close>

subsection \<open>The blocks, one by one\<close>

lemma fst_logCall [simp]: "fst (logCall c r) = fst r"
  by (simp add: logCall_def)

lemma snd_logCall [simp]: "snd (logCall c r) = snd r @ [c]"
  by (simp add: logCall_def)

lemma fst_pushError [simp]: "fst (pushError e r) = fst r @ [e]"
  by (simp add: pushError_def)

lemma snd_pushError [simp]: "snd (pushError e r) = snd r"
  by (simp add: pushError_def)

lemma F_Data_stages:
  "F_Data gh w raw =
     (case gh (normalizeUrl raw) of
        None \<Rightarrow> (Inl InvalidTarget, [])
      | Some h \<Rightarrow>
          (case cwd w of
             Inl msg \<Rightarrow> (Inl (CwdFailed msg), snd (snd (afterWhois w (normalizeUrl raw) h)))
           | Inr dir \<Rightarrow>
               (case mkdir w (resolveOutput dir) of
                  Some msg \<Rightarrow>
                    (Inl (MkdirFailed msg),
                     snd (snd (afterWhois w (normalizeUrl raw) h)) @ [Mkdir (resolveOutput dir)])
                | None \<Rightarrow>
                    (case writeFile w (reportPath w (resolveOutput dir) (stripWww h)) of
                       Some msg \<Rightarrow>
                         (Inl (WriteFileFailed msg),
                          snd (snd (afterWhois w (normalizeUrl raw) h))
                            @ [Mkdir (resolveOutput dir),
                               WriteFile (reportPath w (resolveOutput dir) (stripWww h))])
                     | None \<Rightarrow>
                         (Inr (gathered w (normalizeUrl raw) h
                                 (reportPath w (resolveOutput dir) (stripWww h))),
                          snd (snd (afterWhois w (normalizeUrl raw) h))
                            @ [Mkdir (resolveOutput dir),
                               WriteFile (reportPath w (resolveOutput dir) (stripWww h))])))))"
  by (simp add: F_Data_def Let_def case_prod_beta gathered_def afterWhois_def afterTls_def
        afterHttp_def afterGeo_def afterDns_def split: option.splits sum.splits)

lemma dnsBlock_eq:
  "dnsBlock w h r =
     (case dnsLookup w h of Inl _ \<Rightarrow> [] | Inr a \<Rightarrow> a,
      fst r @ dnsErrors w h, snd r @ [DnsLookup h])"
  by (simp add: dnsBlock_def dnsErrors_def prod_eq_iff split: sum.splits)

lemma httpBlock_eq:
  "httpBlock w url r =
     (case httpRequest w url of Inl _ \<Rightarrow> None | Inr i \<Rightarrow> Some i,
      fst r @ httpErrors w url, snd r @ [HttpRequest url])"
  by (simp add: httpBlock_def httpErrors_def prod_eq_iff split: sum.splits)

lemma tlsBlock_eq:
  "tlsBlock w h r =
     (case getTlsCert w h of Inl _ \<Rightarrow> None | Inr c \<Rightarrow> Some c,
      fst r @ tlsErrors w h, snd r @ [TlsConnect h])"
  by (simp add: tlsBlock_def tlsErrors_def prod_eq_iff split: sum.splits)

lemma whoisBlock_eq:
  "whoisBlock w wd r =
     (case whoisLookup w wd of Inl _ \<Rightarrow> None | Inr x \<Rightarrow> Some x,
      fst r @ whoisErrors w wd, snd r @ [WhoisQuery wd])"
  by (simp add: whoisBlock_def whoisErrors_def prod_eq_iff split: sum.splits)

lemma geoBlock_run:
  "snd (geoBlock w addrs r) = (fst r @ geoErrors w addrs, snd r @ geoCalls w addrs)"
  by (cases addrs)
     (auto simp add: geoBlock_def geoFallback_def geoPrimary_def ipInfoLookup_def
        ipGeoFallback_def geoErrors_def fallbackErrors_def geoCalls_def prod_eq_iff
        split: sum.splits)

lemma geoBlock_absent: "(fst (geoBlock w addrs r) = None) = geoAbsent w addrs"
  by (cases addrs)
     (auto simp add: geoBlock_def geoFallback_def geoPrimary_def ipInfoLookup_def
        ipGeoFallback_def geoAbsent_def split: sum.splits)

lemma geoErrors_length:
  "length (geoErrors w addrs) =
     (if geoAbsent w addrs then 1 else 0)
     + (case addrs of ip # _ \<Rightarrow> if IPINFO_TOKEN w \<noteq> [] \<and> isl (ipinfoFetch w ip) then 1 else 0
        | [] \<Rightarrow> 0)"
  by (cases addrs)
     (auto simp add: geoErrors_def fallbackErrors_def geoAbsent_def split: sum.splits)

lemma gathered_ips:
  "ips (gathered w url h fp) = (case dnsLookup w h of Inl _ \<Rightarrow> [] | Inr a \<Rightarrow> a)"
  by (simp add: gathered_def afterDns_def dnsBlock_eq)

lemma gathered_errors:
  "errors (gathered w url h fp) =
     dnsErrors w h @ geoErrors w (ips (gathered w url h fp)) @ httpErrors w url @ tlsErrors w h
       @ whoisErrors w (stripWww h)"
  by (simp add: gathered_def afterWhois_def afterTls_def afterHttp_def afterGeo_def afterDns_def
        whoisBlock_eq tlsBlock_eq httpBlock_eq geoBlock_run dnsBlock_eq)

lemma afterWhois_calls:
  "snd (snd (afterWhois w url h)) =
     DnsLookup h # geoCalls w (case dnsLookup w h of Inl _ \<Rightarrow> [] | Inr a \<Rightarrow> a)
       @ [HttpRequest url, TlsConnect h, WhoisQuery (stripWww h)]"
  by (simp add: afterWhois_def afterTls_def afterHttp_def afterGeo_def afterDns_def
        whoisBlock_eq tlsBlock_eq httpBlock_eq geoBlock_run dnsBlock_eq)

lemma gathered_fields:
  "(geo (gathered w url h fp) = None) = geoAbsent w (ips (gathered w url h fp))"
  "(http (gathered w url h fp) = None) = isl (httpRequest w url)"
  "(tls (gathered w url h fp) = None) = isl (getTlsCert w h)"
  "(whois (gathered w url h fp) = None) = isl (whoisLookup w (stripWww h))"
  "targetUrl (gathered w url h fp) = url" "host (gathered w url h fp) = h"
  "whoisDomain (gathered w url h fp) = stripWww h"
  by (simp_all add: gathered_def afterWhois_def afterTls_def afterHttp_def afterGeo_def
        afterDns_def whoisBlock_eq tlsBlock_eq httpBlock_eq geoBlock_absent dnsBlock_eq
        split: sum.splits)

lemma F_Data_Inr:
  "F_Data gh w raw = (Inr d, cs) \<Longrightarrow>
     \<exists>h fp. gh (normalizeUrl raw) = Some h \<and> d = gathered w (normalizeUrl raw) h fp"
  by (auto simp add: F_Data_stages split: option.splits sum.splits)

subsection \<open>Claims about the aggregator\<close>

text \<open>
  Claim C2, as amended. For every evidence \<open>F_Data\<close> returns, the length of \<open>errors\<close> is
  the number of absent optional fields among geo, http, tls and whois, plus one if
  the DNS lookup threw, plus one if the credentialed geolocation provider was called
  and failed. The number of absent optional fields is also the number of failed
  sub-lookups, counting DNS as failed when it resolved no address and not counting a
  geolocation skipped for want of an address: the skip puts one entry of its own into
  \<open>errors\<close>, which stands beside the entry of the DNS exception when there is one.
\<close>

theorem F_Data_errors_count:
  assumes "F_Data gh w raw = (Inr d, cs)"
  shows "length (errors d) =
           absentFields d + (if dnsThrew w (host d) then 1 else 0)
             + (if primaryFailed w (host d) then 1 else 0)
         \<and> lookupFailures d = absentFields d"
proof -
  from assms obtain h fp where d: "d = gathered w (normalizeUrl raw) h fp"
    using F_Data_Inr by blast
  let ?u = "normalizeUrl raw"
  have dns: "length (dnsErrors w h) = (if dnsThrew w h then 1 else 0)"
    by (simp add: dnsErrors_def dnsThrew_def split: sum.splits)
  have geo: "length (geoErrors w (ips d)) =
      (if geo d = None then 1 else 0) + (if primaryFailed w h then 1 else 0)"
    unfolding geoErrors_length d gathered_fields
    by (simp add: gathered_ips primaryFailed_def split: sum.splits list.splits)
  have rest: "length (httpErrors w ?u) = (if http d = None then 1 else 0)"
    "length (tlsErrors w h) = (if tls d = None then 1 else 0)"
    "length (whoisErrors w (stripWww h)) = (if whois d = None then 1 else 0)"
    unfolding d gathered_fields
    by (simp_all add: httpErrors_def tlsErrors_def whoisErrors_def split: sum.splits)
  have len: "length (errors d) =
      length (dnsErrors w h) + length (geoErrors w (ips d)) + length (httpErrors w ?u)
        + length (tlsErrors w h) + length (whoisErrors w (stripWww h))"
    unfolding d by (subst gathered_errors) simp
  have hd: "host d = h" by (simp add: d gathered_fields)
  have "ips d = [] \<Longrightarrow> geo d = None"
    unfolding d gathered_fields by (simp add: geoAbsent_def)
  then have "lookupFailures d = absentFields d"
    by (auto simp add: lookupFailures_def absentFields_def)
  moreover have "length (errors d) =
      absentFields d + (if dnsThrew w h then 1 else 0) + (if primaryFailed w h then 1 else 0)"
    unfolding len dns geo rest absentFields_def by simp
  ultimately show ?thesis by (simp add: hd)
qed

text \<open>
  A run with a token in which ipinfo fails and ipwho.is answers: no field is absent
  and \<open>errors\<close> has the one entry of the failed provider.
\<close>

theorem F_Data_errors_count_witness:
  "F_Data sampleParser worldPrimaryFails ''example.com'' =
     (Inr evPrimaryFailed,
      [DnsLookup ''example.com'', IpinfoFetch ''93.184.216.34'', IpwhoFetch ''93.184.216.34'',
       HttpRequest ''https://example.com'', TlsConnect ''example.com'',
       WhoisQuery ''example.com'', Mkdir ''/home/u/output'',
       WriteFile ''/home/u/output/rawdata-example.com-20260101-120000.txt''])
   \<and> length (errors evPrimaryFailed) =
       absentFields evPrimaryFailed
         + (if dnsThrew worldPrimaryFails (host evPrimaryFailed) then 1 else 0)
         + (if primaryFailed worldPrimaryFails (host evPrimaryFailed) then 1 else 0)
   \<and> lookupFailures evPrimaryFailed = absentFields evPrimaryFailed"
proof -
  have a: "F_Data sampleParser worldPrimaryFails ''example.com'' =
     (Inr evPrimaryFailed,
      [DnsLookup ''example.com'', IpinfoFetch ''93.184.216.34'', IpwhoFetch ''93.184.216.34'',
       HttpRequest ''https://example.com'', TlsConnect ''example.com'',
       WhoisQuery ''example.com'', Mkdir ''/home/u/output'',
       WriteFile ''/home/u/output/rawdata-example.com-20260101-120000.txt''])"
    by code_simp
  show ?thesis
    using a F_Data_errors_count [OF a] by simp
qed

text \<open>
  Claim C2 as it was stated fails: when the DNS lookup throws and HTTP, TLS and WHOIS
  answer, one sub-lookup has failed and one optional field (the skipped geo) is
  absent, and \<open>errors\<close> has two entries: the skip has added one beyond the entry of the
  DNS failure.
\<close>

theorem F_Data_errors_counterexample:
  "fst (F_Data sampleParser worldDnsDown ''example.com'') = Inr evDnsDown
   \<and> errors evDnsDown =
       [''IP ERROR: getaddrinfo ENOTFOUND example.com'', ''No IP addresses resolved from DNS'']
   \<and> lookupFailures evDnsDown = 1 \<and> absentFields evDnsDown = 1
   \<and> length (errors evDnsDown) \<noteq> lookupFailures evDnsDown"
  by code_simp

text \<open>
  Claim C3, as amended. \<open>F_Data\<close> never fails because of a sub-lookup: when the target
  URL parses and the report can be saved it returns an evidence, whatever the DNS,
  geolocation, HTTP, TLS and WHOIS outcomes are, and in that evidence every failed
  attempt has its entry in \<open>errors\<close>, with \<open>http\<close>, \<open>tls\<close> and \<open>whois\<close> absent exactly when
  their lookup failed and \<open>geo\<close> absent exactly when no address was resolved or no
  provider answered. \<open>F_Data\<close> fails in four cases only: with InvalidTarget when the
  target URL does not parse, and, while saving the report after the lookups, when
  reading the working directory, creating the output directory or writing the report
  file fails.
\<close>

theorem F_Data_failure_modes:
  "case gh (normalizeUrl raw) of
     None \<Rightarrow> fst (F_Data gh w raw) = Inl InvalidTarget
   | Some h \<Rightarrow>
       (case cwd w of
          Inl msg \<Rightarrow> fst (F_Data gh w raw) = Inl (CwdFailed msg)
        | Inr dir \<Rightarrow>
            (case mkdir w (resolveOutput dir) of
               Some msg \<Rightarrow> fst (F_Data gh w raw) = Inl (MkdirFailed msg)
             | None \<Rightarrow>
                 (case writeFile w (reportPath w (resolveOutput dir) (stripWww h)) of
                    Some msg \<Rightarrow> fst (F_Data gh w raw) = Inl (WriteFileFailed msg)
                  | None \<Rightarrow> (\<exists>d. fst (F_Data gh w raw) = Inr d \<and> host d = h
                                    \<and> lookupsIsolated w d))))"
proof -
  have "lookupsIsolated w (gathered w u h fp)" for u h fp
    unfolding lookupsIsolated_def gathered_fields
    using gathered_errors [of w u h fp] gathered_ips [of w u h fp] by simp
  then show ?thesis
    by (simp add: F_Data_stages gathered_fields split: option.splits sum.splits)
qed

text \<open>A run in which DNS, HTTP, TLS and WHOIS all fail still returns an evidence.\<close>

theorem F_Data_failure_modes_witness:
  "sampleParser (normalizeUrl ''http://example.com'') = Some ''example.com''
   \<and> cwd worldAllDown = Inr ''/home/u''
   \<and> mkdir worldAllDown (resolveOutput ''/home/u'') = None
   \<and> writeFile worldAllDown
         (reportPath worldAllDown (resolveOutput ''/home/u'') (stripWww ''example.com'')) = None
   \<and> (\<exists>d. fst (F_Data sampleParser worldAllDown ''http://example.com'') = Inr d
           \<and> host d = ''example.com'' \<and> lookupsIsolated worldAllDown d)"
proof -
  have a: "sampleParser (normalizeUrl ''http://example.com'') = Some ''example.com''"
    "cwd worldAllDown = Inr ''/home/u''"
    "mkdir worldAllDown (resolveOutput ''/home/u'') = None"
    "writeFile worldAllDown
       (reportPath worldAllDown (resolveOutput ''/home/u'') (stripWww ''example.com'')) = None"
    by code_simp+
  show ?thesis
    using a F_Data_failure_modes [where gh = sampleParser and raw = "''http://example.com''"
        and w = worldAllDown]
    by simp
qed

text \<open>
  Claim C3 as it was stated fails: with a target that parses and every lookup
  answering, \<open>F_Data\<close> still fails when the report file cannot be written, and the
  failure is not InvalidTarget.
\<close>

theorem F_Data_failure_counterexample:
  "sampleParser (normalizeUrl ''example.com'') = Some ''example.com''
   \<and> fst (F_Data sampleParser worldReadOnly ''example.com'')
       = Inl (WriteFileFailed ''EACCES: permission denied'')
   \<and> fst (F_Data sampleParser worldReadOnly ''example.com'') \<noteq> Inl InvalidTarget"
  by code_simp

text \<open>
  Claim C6. For the address handed to the geolocation block (the first one DNS
  resolved), the provider calls \<open>F_Data\<close> makes are these and no others: with a token,
  ipinfo first, and ipwho.is after it exactly when ipinfo failed; without a token,
  ipwho.is alone. So ipinfo is tried first if and only if a token is configured, the
  fallback is tried on every failure of ipinfo and when the token is missing, no
  provider is called twice, and a success of ipinfo ends the block.
\<close>

theorem geo_provider_order:
  assumes "gh (normalizeUrl raw) = Some h" and "dnsLookup w h = Inr (ip # rest)"
  shows "filter isGeoCall (snd (F_Data gh w raw)) =
           (if IPINFO_TOKEN w \<noteq> []
            then IpinfoFetch ip # (if isl (ipinfoFetch w ip) then [IpwhoFetch ip] else [])
            else [IpwhoFetch ip])"
proof -
  have g: "filter isGeoCall (geoCalls w (ip # rest)) = geoCalls w (ip # rest)"
    by (simp add: geoCalls_def isGeoCall_def)
  have c: "filter isGeoCall (snd (snd (afterWhois w (normalizeUrl raw) h))) = geoCalls w (ip # rest)"
    by (simp add: afterWhois_calls assms(2) g) (simp add: isGeoCall_def)
  have "filter isGeoCall (snd (F_Data gh w raw)) = geoCalls w (ip # rest)"
    by (simp add: F_Data_stages assms(1) c split: option.splits sum.splits)
       (simp add: isGeoCall_def)
  then show ?thesis by (simp add: geoCalls_def)
qed

text \<open>
  Three runs: a token and a failing ipinfo, a token and an answering ipinfo, no token.
\<close>

theorem geo_provider_order_witness:
  "sampleParser (normalizeUrl ''example.com'') = Some ''example.com''
   \<and> dnsLookup worldPrimaryFails ''example.com'' = Inr [''93.184.216.34'', ''2606:2800:220:1::1'']
   \<and> IPINFO_TOKEN worldPrimaryFails \<noteq> [] \<and> isl (ipinfoFetch worldPrimaryFails ''93.184.216.34'')
   \<and> filter isGeoCall (snd (F_Data sampleParser worldPrimaryFails ''example.com''))
       = [IpinfoFetch ''93.184.216.34'', IpwhoFetch ''93.184.216.34'']
   \<and> IPINFO_TOKEN worldPrimaryOk \<noteq> [] \<and> \<not> isl (ipinfoFetch worldPrimaryOk ''93.184.216.34'')
   \<and> filter isGeoCall (snd (F_Data sampleParser worldPrimaryOk ''example.com''))
       = [IpinfoFetch ''93.184.216.34'']
   \<and> IPINFO_TOKEN sampleWorld = []
   \<and> filter isGeoCall (snd (F_Data sampleParser sampleWorld ''example.com''))
       = [IpwhoFetch ''93.184.216.34'']"
proof -
  have p: "sampleParser (normalizeUrl ''example.com'') = Some ''example.com''"
    by code_simp
  have d: "dnsLookup worldPrimaryFails ''example.com'' = Inr [''93.184.216.34'', ''2606:2800:220:1::1'']"
    "dnsLookup worldPrimaryOk ''example.com'' = Inr [''93.184.216.34'', ''2606:2800:220:1::1'']"
    "dnsLookup sampleWorld ''example.com'' = Inr [''93.184.216.34'', ''2606:2800:220:1::1'']"
    by (simp_all add: worldPrimaryFails_def worldPrimaryOk_def sampleWorld_def)
  have t: "IPINFO_TOKEN worldPrimaryFails \<noteq> []" "isl (ipinfoFetch worldPrimaryFails ''93.184.216.34'')"
    "IPINFO_TOKEN worldPrimaryOk \<noteq> []" "\<not> isl (ipinfoFetch worldPrimaryOk ''93.184.216.34'')"
    "IPINFO_TOKEN sampleWorld = []"
    by (simp_all add: worldPrimaryFails_def worldPrimaryOk_def sampleWorld_def)
  show ?thesis
    using p d(1) t
      geo_provider_order [where gh = sampleParser and raw = "''example.com''", OF p d(1)]
      geo_provider_order [where gh = sampleParser and raw = "''example.com''", OF p d(2)]
      geo_provider_order [where gh = sampleParser and raw = "''example.com''", OF p d(3)]
    by simp
qed

end
